theory Spec2Isabelle
  imports Complex_Main "HOL-Library.Sublist"
begin

text \<open>
  A model of \<open>eve_link_manager.py\<close>: the endpoint executors that suspend and resume
  one interface of a lab, the coordinators of the two endpoints of a link, the flap
  sequencers, the resolver of interface names and the batch runner with the batch command
  of \<open>main\<close>. Every function is a function of the environment, its arguments and the
  trace so far, and returns its result, or the exception it raises, with the new trace.
\<close>

section \<open>Python strings (ASCII)\<close>

text \<open>
  Strings are lists of bytes; the classification of characters (\<open>isdigit\<close>,
  \<open>isspace\<close>, \<open>lower\<close>) is Python's restricted to ASCII.
\<close>

definition isdigit :: "char \<Rightarrow> bool" where
  "isdigit c = (c \<in> set ''0123456789'')"

definition isspace :: "char \<Rightarrow> bool" where
  "isspace c = (of_char c \<in> {9, 10, 11, 12, 13, 28, 29, 30, 31, 32 :: nat})"

definition lower_char :: "char \<Rightarrow> char" where
  "lower_char c =
     (case map_of (zip ''ABCDEFGHIJKLMNOPQRSTUVWXYZ'' ''abcdefghijklmnopqrstuvwxyz'') c of
        Some d \<Rightarrow> d
      | None \<Rightarrow> c)"

definition lower :: "string \<Rightarrow> string" where
  "lower s = map lower_char s"

definition startswith :: "string \<Rightarrow> string \<Rightarrow> bool" where
  "startswith s p = prefix p s"

definition endswith :: "string \<Rightarrow> string \<Rightarrow> bool" where
  "endswith s p = suffix p s"

text \<open>\<open>contains s p\<close> is Python's \<open>p in s\<close>.\<close>

fun contains :: "string \<Rightarrow> string \<Rightarrow> bool" where
  "contains [] p = (p = [])"
| "contains (c # s) p = (prefix p (c # s) \<or> contains s p)"

definition strip :: "string \<Rightarrow> string" where
  "strip s = rev (dropWhile isspace (rev (dropWhile isspace s)))"

text \<open>\<open>split_on c s\<close> is \<open>s.split(c)\<close> for a one-character separator.\<close>

fun split_on :: "char \<Rightarrow> string \<Rightarrow> string list" where
  "split_on c [] = [[]]"
| "split_on c (x # xs) =
     (if x = c then [] # split_on c xs
      else (case split_on c xs of
              [] \<Rightarrow> [[x]]
            | p # ps \<Rightarrow> (x # p) # ps))"

text \<open>\<open>join sep xs\<close> is \<open>sep.join(xs)\<close>.\<close>

fun join :: "string \<Rightarrow> string list \<Rightarrow> string" where
  "join sep [] = []"
| "join sep [x] = x"
| "join sep (x # y # ys) = x @ sep @ join sep (y # ys)"

definition digit_char :: "nat \<Rightarrow> char" where
  "digit_char d = ''0123456789'' ! d"

function str_nat :: "nat \<Rightarrow> string" where
  "str_nat n = (if n < 10 then [digit_char n] else str_nat (n div 10) @ [digit_char (n mod 10)])"
  by pat_completeness auto
termination
  by (relation "measure id") auto

declare str_nat.simps [simp del]

text \<open>\<open>str_int i\<close> is the decimal text an f-string gives for the int \<open>i\<close>.\<close>

definition str_int :: "int \<Rightarrow> string" where
  "str_int i = (if i < 0 then CHR ''-'' # str_nat (nat (- i)) else str_nat (nat i))"

text \<open>\<open>range_py n\<close> is \<open>range(n)\<close>: empty when \<open>n \<le> 0\<close>.\<close>

definition range_py :: "int \<Rightarrow> int list" where
  "range_py n = map int [0..<nat n]"

section \<open>The world outside the program\<close>

text \<open>
  Everything the program says or does is an event of the trace, in order: a call of
  the logger, a \<open>print\<close>, a call of \<open>subprocess.run\<close> with its argument vector, a
  \<open>time.sleep\<close>.
\<close>

datatype level = DEBUG | INFO | WARNING | ERROR

datatype event =
    Log level string
  | Print string
  | Run "string list"
  | Sleep real

type_synonym world = "event list"

text \<open>
  What \<open>subprocess.run(cmd, check=True)\<close> does: it returns (exit status 0), raises
  \<open>CalledProcessError\<close> (non-zero exit status), or raises another exception, such as
  \<open>FileNotFoundError\<close> when the program to launch is missing. The strings are
  \<open>str(e)\<close>.
\<close>

datatype proc_outcome = Completed | CalledProcessError string | Raised string

text \<open>
  Exceptions: \<open>PyException\<close> is any subclass of \<open>Exception\<close> with its \<open>str(e)\<close>;
  \<open>SystemExit\<close> is what \<open>sys.exit\<close> raises, which \<open>except Exception\<close> does not catch.
\<close>

datatype exn = PyException string | SystemExit int

text \<open>One interface of a node, as the lab's API gives it: a dict, with its \<open>name\<close> if it has one, or something else.\<close>

datatype if_data = IfDict "string option" | IfOther

text \<open>
  The response of \<open>get_node_interfaces\<close>: the call raised, or it returned a dict with
  an optional \<open>status\<close>, an optional \<open>data\<close> (interface type to local ID to
  interface, in the dict's order) and its text when formatted.
\<close>

datatype ifs_response =
    IfsRaised string
  | IfsResponse "string option" "(string \<times> (string \<times> if_data) list) list option" string

text \<open>The response of \<open>list_nodes\<close>, likewise: node ID to the node's optional \<open>name\<close>.\<close>

datatype nodes_response =
    NodesRaised string
  | NodesResponse "string option" "(string \<times> string option) list option" string

text \<open>
  The environment of a run. \<open>subprocess_run\<close> may depend on what happened before
  (the trace), so the same command can succeed once and fail later. \<open>login\<close> gives
  \<open>Some (str e)\<close> when the connection to the lab server raises. \<open>open_lines\<close>
  gives the lines of a file, or the exception \<open>open\<close> raises.
\<close>

record env =
  subprocess_run :: "world \<Rightarrow> string list \<Rightarrow> proc_outcome"
  str_float :: "real \<Rightarrow> string"
  path_exists :: "string \<Rightarrow> bool"
  open_lines :: "string \<Rightarrow> string + string list"
  getenv :: "string \<Rightarrow> string option"
  login :: "string \<Rightarrow> string \<Rightarrow> string \<Rightarrow> string option"
  list_nodes :: "string \<Rightarrow> nodes_response"
  get_node_interfaces :: "string \<Rightarrow> string \<Rightarrow> ifs_response"

definition logger :: "level \<Rightarrow> string \<Rightarrow> world \<Rightarrow> world" where
  "logger lv msg w = w @ [Log lv msg]"

definition print :: "string \<Rightarrow> world \<Rightarrow> world" where
  "print msg w = w @ [Print msg]"

text \<open>\<open>time.sleep\<close> raises \<open>ValueError\<close> on a negative length.\<close>

definition time_sleep :: "real \<Rightarrow> world \<Rightarrow> (exn + unit) \<times> world" where
  "time_sleep d w =
     (if d < 0 then (Inl (PyException ''sleep length must be non-negative''), w)
      else (Inr (), w @ [Sleep d]))"

section \<open>Endpoint Transition Executor\<close>

definition suspend_eveng_interface ::
  "env \<Rightarrow> string \<Rightarrow> string \<Rightarrow> string \<Rightarrow> bool \<Rightarrow> world \<Rightarrow> (exn + bool \<times> string) \<times> world" where
  "suspend_eveng_interface E lab_path device_id interface_id dry_run w =
     (let w1 = logger INFO (''Suspending EVE-NG interface: device '' @ device_id
                  @ '', interface '' @ interface_id) w;
          cmd = [''sudo'', ''/opt/unetlab/wrappers/unl_wrapper'',
                 ''-a'', ''suspendlink'',
                 ''-T'', ''0'',
                 ''-I'', interface_id,
                 ''-D'', device_id,
                 ''-F'', lab_path]
      in if dry_run then
           (let cmd_str = join '' '' cmd;
                w2 = logger INFO (''DRY RUN - Would execute: '' @ cmd_str) w1
            in (Inr (True, ''DRY RUN - Would suspend device '' @ device_id @ '' interface ''
                       @ interface_id @ '' with command: '' @ cmd_str), w2))
         else
           (case subprocess_run E w1 cmd of
              Completed \<Rightarrow>
                (Inr (True, ''Successfully suspended device '' @ device_id @ '' interface ''
                        @ interface_id), w1 @ [Run cmd])
            | CalledProcessError e \<Rightarrow>
                (let error_msg = ''Failed to suspend EVE-NG interface: '' @ e
                 in (Inr (False, error_msg), logger ERROR error_msg (w1 @ [Run cmd])))
            | Raised e \<Rightarrow> (Inl (PyException e), w1 @ [Run cmd])))"

definition resume_eveng_interface ::
  "env \<Rightarrow> string \<Rightarrow> string \<Rightarrow> string \<Rightarrow> bool \<Rightarrow> world \<Rightarrow> (exn + bool \<times> string) \<times> world" where
  "resume_eveng_interface E lab_path device_id interface_id dry_run w =
     (let w1 = logger INFO (''Resuming EVE-NG interface: device '' @ device_id
                  @ '', interface '' @ interface_id) w;
          cmd = [''sudo'', ''/opt/unetlab/wrappers/unl_wrapper'',
                 ''-a'', ''resumelink'',
                 ''-T'', ''0'',
                 ''-I'', interface_id,
                 ''-D'', device_id,
                 ''-F'', lab_path]
      in if dry_run then
           (let cmd_str = join '' '' cmd;
                w2 = logger INFO (''DRY RUN - Would execute: '' @ cmd_str) w1
            in (Inr (True, ''DRY RUN - Would resume device '' @ device_id @ '' interface ''
                       @ interface_id @ '' with command: '' @ cmd_str), w2))
         else
           (case subprocess_run E w1 cmd of
              Completed \<Rightarrow>
                (Inr (True, ''Successfully resumed device '' @ device_id @ '' interface ''
                        @ interface_id), w1 @ [Run cmd])
            | CalledProcessError e \<Rightarrow>
                (let error_msg = ''Failed to resume EVE-NG interface: '' @ e
                 in (Inr (False, error_msg), logger ERROR error_msg (w1 @ [Run cmd])))
            | Raised e \<Rightarrow> (Inl (PyException e), w1 @ [Run cmd])))"

section \<open>Link Transition Coordinator\<close>

definition suspend_eveng_link ::
  "env \<Rightarrow> string \<Rightarrow> string \<Rightarrow> string \<Rightarrow> string \<Rightarrow> string \<Rightarrow> bool \<Rightarrow> world
     \<Rightarrow> (exn + bool \<times> string) \<times> world" where
  "suspend_eveng_link E lab_path device1_id interface1_id device2_id interface2_id dry_run w =
     (let w0 = logger INFO (''Suspending EVE-NG link: device '' @ device1_id @ '' interface ''
                  @ interface1_id @ '' <-> device '' @ device2_id @ '' interface ''
                  @ interface2_id) w
      in case suspend_eveng_interface E lab_path device1_id interface1_id dry_run w0 of
           (Inl e, w1) \<Rightarrow> (Inl e, w1)
         | (Inr (success1, message1), w1) \<Rightarrow>
             (case suspend_eveng_interface E lab_path device2_id interface2_id dry_run w1 of
                (Inl e, w2) \<Rightarrow> (Inl e, w2)
              | (Inr (success2, message2), w2) \<Rightarrow>
                  if success1 \<and> success2 then
                    (Inr (True, ''Successfully suspended link between device '' @ device1_id
                            @ '' interface '' @ interface1_id @ '' and device '' @ device2_id
                            @ '' interface '' @ interface2_id), w2)
                  else if \<not> success1 then
                    (Inr (False, ''Failed to suspend first side of link: '' @ message1), w2)
                  else
                    (Inr (False, ''Failed to suspend second side of link: '' @ message2), w2)))"

definition resume_eveng_link ::
  "env \<Rightarrow> string \<Rightarrow> string \<Rightarrow> string \<Rightarrow> string \<Rightarrow> string \<Rightarrow> bool \<Rightarrow> world
     \<Rightarrow> (exn + bool \<times> string) \<times> world" where
  "resume_eveng_link E lab_path device1_id interface1_id device2_id interface2_id dry_run w =
     (let w0 = logger INFO (''Resuming EVE-NG link: device '' @ device1_id @ '' interface ''
                  @ interface1_id @ '' <-> device '' @ device2_id @ '' interface ''
                  @ interface2_id) w
      in case resume_eveng_interface E lab_path device1_id interface1_id dry_run w0 of
           (Inl e, w1) \<Rightarrow> (Inl e, w1)
         | (Inr (success1, message1), w1) \<Rightarrow>
             (case resume_eveng_interface E lab_path device2_id interface2_id dry_run w1 of
                (Inl e, w2) \<Rightarrow> (Inl e, w2)
              | (Inr (success2, message2), w2) \<Rightarrow>
                  if success1 \<and> success2 then
                    (Inr (True, ''Successfully resumed link between device '' @ device1_id
                            @ '' interface '' @ interface1_id @ '' and device '' @ device2_id
                            @ '' interface '' @ interface2_id), w2)
                  else if \<not> success1 then
                    (Inr (False, ''Failed to resume first side of link: '' @ message1), w2)
                  else
                    (Inr (False, ''Failed to resume second side of link: '' @ message2), w2)))"

section \<open>Host interface control\<close>



section \<open>Flap Sequencer\<close>



fun flap_eveng_interface_loop ::
  "env \<Rightarrow> string \<Rightarrow> string \<Rightarrow> string \<Rightarrow> int \<Rightarrow> real \<Rightarrow> bool \<Rightarrow> int list \<Rightarrow> world
     \<Rightarrow> (exn + (bool \<times> string) option) \<times> world" where
  "flap_eveng_interface_loop E lab_path device_id interface_id count delay dry_run [] w =
     (Inr None, w)"
| "flap_eveng_interface_loop E lab_path device_id interface_id count delay dry_run (i # rest) w =
     (let w0 = logger INFO (''Flap '' @ str_int (i + 1) @ ''/'' @ str_int count) w
      in case suspend_eveng_interface E lab_path device_id interface_id dry_run w0 of
           (Inl e, w1) \<Rightarrow> (Inl e, w1)
         | (Inr (suspend_success, suspend_msg), w1) \<Rightarrow>
             if \<not> suspend_success then
               (Inr (Some (False, ''Failed to flap device '' @ device_id @ '' interface ''
                       @ interface_id @ '' (suspend failed): '' @ suspend_msg)), w1)
             else
               (case time_sleep delay w1 of
                  (Inl e, w2) \<Rightarrow> (Inl e, w2)
                | (Inr _, w2) \<Rightarrow>
                    (case resume_eveng_interface E lab_path device_id interface_id dry_run w2 of
                       (Inl e, w3) \<Rightarrow> (Inl e, w3)
                     | (Inr (resume_success, resume_msg), w3) \<Rightarrow>
                         if \<not> resume_success then
                           (Inr (Some (False, ''Failed to flap device '' @ device_id
                                   @ '' interface '' @ interface_id @ '' (resume failed): ''
                                   @ resume_msg)), w3)
                         else if i < count - 1 then
                           (case time_sleep delay w3 of
                              (Inl e, w4) \<Rightarrow> (Inl e, w4)
                            | (Inr _, w4) \<Rightarrow>
                                flap_eveng_interface_loop E lab_path device_id interface_id
                                  count delay dry_run rest w4)
                         else flap_eveng_interface_loop E lab_path device_id interface_id
                                count delay dry_run rest w3)))"

definition flap_eveng_interface ::
  "env \<Rightarrow> string \<Rightarrow> string \<Rightarrow> string \<Rightarrow> int \<Rightarrow> real \<Rightarrow> bool \<Rightarrow> world
     \<Rightarrow> (exn + bool \<times> string) \<times> world" where
  "flap_eveng_interface E lab_path device_id interface_id count delay dry_run w =
     (let w0 = logger INFO (''Flapping EVE-NG interface: device '' @ device_id @ '', interface ''
                  @ interface_id @ '', '' @ str_int count @ '' times with ''
                  @ str_float E delay @ ''s delay'') w
      in case flap_eveng_interface_loop E lab_path device_id interface_id count delay dry_run
                (range_py count) w0 of
           (Inl e, w1) \<Rightarrow> (Inl e, w1)
         | (Inr (Some r), w1) \<Rightarrow> (Inr r, w1)
         | (Inr None, w1) \<Rightarrow>
             if dry_run then
               (Inr (True, ''DRY RUN - Would flap device '' @ device_id @ '' interface ''
                       @ interface_id @ '' '' @ str_int count @ '' times with ''
                       @ str_float E delay @ ''s delay''), w1)
             else
               (Inr (True, ''Successfully flapped device '' @ device_id @ '' interface ''
                       @ interface_id @ '' '' @ str_int count @ '' times with ''
                       @ str_float E delay @ ''s delay''), w1))"

section \<open>Identifier Resolver\<close>

text \<open>The lab path as the API expects it: no \<open>/opt/unetlab/labs/\<close> prefix, no \<open>.unl\<close> extension.\<close>

definition api_lab_path :: "string \<Rightarrow> string" where
  "api_lab_path lab_path =
     (let p = (if startswith lab_path ''/opt/unetlab/labs/''
               then drop (length ''/opt/unetlab/labs/'') lab_path
               else lab_path)
      in if endswith p ''.unl'' then take (length p - 4) p else p)"

text \<open>
  The loop over \<open>nodes.items()\<close>: \<open>Inr (Some node_id)\<close> at the first node whose name
  matches, \<open>Inr None\<close> when none does, \<open>Inl\<close> the \<open>KeyError\<close> that \<open>node['name']\<close>
  raises on a node without a name.
\<close>

fun find_node :: "string \<Rightarrow> (string \<times> string option) list \<Rightarrow> string + string option" where
  "find_node device_name [] = Inr None"
| "find_node device_name ((node_id, node) # rest) =
     (case node of
        None \<Rightarrow> Inl (CHR 0x27 # ''name'' @ [CHR 0x27])
      | Some name \<Rightarrow>
          if lower name = lower device_name then Inr (Some node_id)
          else find_node device_name rest)"

definition get_device_id_by_name ::
  "env \<Rightarrow> string \<Rightarrow> string \<Rightarrow> world \<Rightarrow> string option \<times> world" where
  "get_device_id_by_name E lab_path device_name w =
     (let p = api_lab_path lab_path;
          w1 = logger DEBUG (''Using API lab path: '' @ p) w;
          caught = (\<lambda>e. (None, logger ERROR (''Error getting device ID for name '' @ [CHR 0x27]
                      @ device_name @ [CHR 0x27] @ '': '' @ e) w1))
      in case list_nodes E p of
           NodesRaised e \<Rightarrow> caught e
         | NodesResponse status data shown \<Rightarrow>
             if status \<noteq> Some ''success'' then
               (None, logger ERROR (''Failed to get nodes: '' @ shown) w1)
             else
               (case find_node device_name (case data of None \<Rightarrow> [] | Some nodes \<Rightarrow> nodes) of
                  Inl e \<Rightarrow> caught e
                | Inr (Some node_id) \<Rightarrow> (Some node_id, w1)
                | Inr None \<Rightarrow>
                    (None, logger ERROR (''Device name '' @ [CHR 0x27] @ device_name @ [CHR 0x27]
                       @ '' not found in lab'') w1)))"

text \<open>
  The type and number of an interface name: \<open>(interface_type, interface_number)\<close>, both
  empty when the name has neither a slash nor a digit.
\<close>

definition parse_interface_name :: "string \<Rightarrow> string \<times> string" where
  "parse_interface_name interface_name =
     (if CHR ''/'' \<in> set interface_name then
        (let parts = split_on CHR ''/'' (lower interface_name);
             type_part = parts ! 0;
             interface_type = filter (\<lambda>c. \<not> isdigit c) type_part;
             type_number = filter isdigit type_part;
             interface_number = parts ! 1
         in (interface_type,
             if type_number \<noteq> [] then type_number @ ''/'' @ interface_number
             else interface_number))
      else
        (let i = length (takeWhile (\<lambda>c. \<not> isdigit c) (lower interface_name))
         in if i < length interface_name
            then (lower (take i interface_name), drop i interface_name)
            else ([], [])))"

definition eve_types :: "(string \<times> string) list" where
  "eve_types =
     [(''e'', ''ethernet''),
      (''eth'', ''ethernet''),
      (''ethernet'', ''ethernet''),
      (''gi'', ''ethernet''),
      (''fa'', ''ethernet''),
      (''g'', ''ethernet''),
      (''gigabitethernet'', ''ethernet''),
      (''fastethernet'', ''ethernet''),
      (''s'', ''serial''),
      (''serial'', ''serial'')]"

definition eve_type_of :: "string \<Rightarrow> string" where
  "eve_type_of interface_type =
     (case map_of eve_types interface_type of Some t \<Rightarrow> t | None \<Rightarrow> ''ethernet'')"

definition last_part :: "string \<Rightarrow> string" where
  "last_part interface_number =
     (if CHR ''/'' \<in> set interface_number then last (split_on CHR ''/'' interface_number)
      else interface_number)"

text \<open>\<open>isinstance(if_data, dict)\<close> and \<open>if_data.get('name', '')\<close>.\<close>

fun is_dict :: "if_data \<Rightarrow> bool" where
  "is_dict (IfDict _) = True"
| "is_dict IfOther = False"

fun get_name :: "if_data \<Rightarrow> string" where
  "get_name (IfDict (Some name)) = name"
| "get_name _ = []"

text \<open>The loop over \<open>interfaces[eve_type].items()\<close>, with its three tests on each interface.\<close>

fun find_interface :: "string \<Rightarrow> string \<Rightarrow> (string \<times> if_data) list \<Rightarrow> string option" where
  "find_interface lastp interface_name [] = None"
| "find_interface lastp interface_name ((if_id, d) # rest) =
     (if if_id = lastp then Some if_id
      else if is_dict d \<and> lower (get_name d) = lower interface_name then Some if_id
      else if is_dict d \<and> contains (lower (get_name d)) (lower interface_name) then Some if_id
      else find_interface lastp interface_name rest)"

definition get_interface_id_by_name ::
  "env \<Rightarrow> string \<Rightarrow> string \<Rightarrow> string \<Rightarrow> world \<Rightarrow> string option \<times> world" where
  "get_interface_id_by_name E lab_path device_id interface_name w =
     (let p = api_lab_path lab_path;
          w1 = logger DEBUG (''Using API lab path: '' @ p) w
      in case get_node_interfaces E p device_id of
           IfsRaised e \<Rightarrow>
             (None, logger ERROR (''Error getting interface ID for name '' @ [CHR 0x27]
                @ interface_name @ [CHR 0x27] @ '' on device '' @ device_id @ '': '' @ e) w1)
         | IfsResponse status data shown \<Rightarrow>
             if status \<noteq> Some ''success'' then
               (None, logger ERROR (''Failed to get interfaces for device '' @ device_id
                  @ '': '' @ shown) w1)
             else
               (let interfaces = (case data of None \<Rightarrow> [] | Some d \<Rightarrow> d);
                    (interface_type, interface_number) = parse_interface_name interface_name;
                    eve_type = eve_type_of interface_type;
                    found = (case map_of interfaces eve_type of
                               None \<Rightarrow> None
                             | Some bucket \<Rightarrow>
                                 find_interface (last_part interface_number) interface_name bucket)
                in case found of
                     Some if_id \<Rightarrow> (Some if_id, w1)
                   | None \<Rightarrow>
                       (None, logger ERROR (''Interface name '' @ [CHR 0x27] @ interface_name
                          @ [CHR 0x27] @ '' not found on device '' @ device_id) w1)))"

section \<open>Batch Runner\<close>

definition connect_to_eveng ::
  "env \<Rightarrow> string \<Rightarrow> string \<Rightarrow> string \<Rightarrow> world \<Rightarrow> (exn + unit) \<times> world" where
  "connect_to_eveng E host username password w =
     (let w1 = logger INFO (''Connecting to EVE-NG server: '' @ host) w
      in case login E host username password of
           None \<Rightarrow> (Inr (), logger INFO ''Successfully connected to EVE-NG'' w1)
         | Some e \<Rightarrow>
             (Inl (SystemExit 1), logger ERROR (''Failed to connect to EVE-NG: '' @ e) w1))"

text \<open>\<open>v or d\<close> on an optional string: the default when \<open>v\<close> is \<open>None\<close> or empty.\<close>

fun or_default :: "string option \<Rightarrow> string \<Rightarrow> string" where
  "or_default None d = d"
| "or_default (Some v) d = (if v = [] then d else v)"

text \<open>How a line's result is counted and printed (the \<open>if result:\<close> of both record shapes).\<close>

definition tally ::
  "int \<Rightarrow> string \<Rightarrow> int \<times> int \<Rightarrow> bool \<times> string \<Rightarrow> world \<Rightarrow> (int \<times> int) \<times> world" where
  "tally i line counts r w =
     (case (counts, r) of
        ((success_count, failure_count), (result, message)) \<Rightarrow>
          if result then
            ((success_count + 1, failure_count),
             print (''Line '' @ str_int i @ '': '' @ message @ '' (for '' @ line @ '')'') w)
          else
            ((success_count, failure_count + 1),
             print (''Line '' @ str_int i @ '': Failed - '' @ message @ '' (for '' @ line
                @ '')'') w))"

text \<open>
  The body of the \<open>try\<close> for one line that is neither blank nor a comment; \<open>counts\<close> is
  \<open>(success_count, failure_count)\<close>.
\<close>

definition process_line_try ::
  "env \<Rightarrow> string \<Rightarrow> string \<Rightarrow> bool \<Rightarrow> int \<Rightarrow> real \<Rightarrow> int \<Rightarrow> string \<Rightarrow> int \<times> int \<Rightarrow> world
     \<Rightarrow> (exn + int \<times> int) \<times> world" where
  "process_line_try E operation lab_path dry_run count delay i line counts w =
     (let parts = split_on CHR '','' line
      in if length parts = 4 then
           (let device1_id = parts ! 0; interface1_id = parts ! 1;
                device2_id = parts ! 2; interface2_id = parts ! 3
            in case (if operation = ''suspend'' then
                       suspend_eveng_link E lab_path device1_id interface1_id device2_id
                         interface2_id dry_run w
                     else if operation = ''resume'' then
                       resume_eveng_link E lab_path device1_id interface1_id device2_id
                         interface2_id dry_run w
                     else
                       (case flap_eveng_interface E lab_path device1_id interface1_id count delay
                               dry_run w of
                          (Inl e, w1) \<Rightarrow> (Inl e, w1)
                        | (Inr (result1, message1), w1) \<Rightarrow>
                            (case flap_eveng_interface E lab_path device2_id interface2_id count
                                    delay dry_run w1 of
                               (Inl e, w2) \<Rightarrow> (Inl e, w2)
                             | (Inr (result2, message2), w2) \<Rightarrow>
                                 (Inr (result1 \<and> result2,
                                    ''Flapped link between device '' @ device1_id
                                    @ '' interface '' @ interface1_id @ '' and device ''
                                    @ device2_id @ '' interface '' @ interface2_id), w2)))) of
                 (Inl e, w') \<Rightarrow> (Inl e, w')
               | (Inr r, w') \<Rightarrow> (case tally i line counts r w' of (c, w'') \<Rightarrow> (Inr c, w'')))
         else if length parts = 2 then
           (let device_name = parts ! 0; interface_name = parts ! 1
            in case get_device_id_by_name E lab_path device_name w of
                 (device_id_opt, w1) \<Rightarrow>
                   (case (case device_id_opt of
                            None \<Rightarrow> None
                          | Some d \<Rightarrow> if d = [] then None else Some d) of
                      None \<Rightarrow>
                        (Inr (fst counts, snd counts + 1),
                         print (''Line '' @ str_int i @ '': Failed to find device named ''
                            @ [CHR 0x27] @ device_name @ [CHR 0x27] @ '' (for '' @ line
                            @ '')'') w1)
                    | Some device_id \<Rightarrow>
                        (case get_interface_id_by_name E lab_path device_id interface_name w1 of
                           (interface_id_opt, w2) \<Rightarrow>
                             (case (case interface_id_opt of
                                      None \<Rightarrow> None
                                    | Some f \<Rightarrow> if f = [] then None else Some f) of
                                None \<Rightarrow>
                                  (Inr (fst counts, snd counts + 1),
                                   print (''Line '' @ str_int i
                                      @ '': Failed to find interface named '' @ [CHR 0x27]
                                      @ interface_name @ [CHR 0x27] @ '' on device ''
                                      @ device_name @ '' (for '' @ line @ '')'') w2)
                              | Some interface_id \<Rightarrow>
                                  (case (if operation = ''suspend'' then
                                           suspend_eveng_interface E lab_path device_id
                                             interface_id dry_run w2
                                         else if operation = ''resume'' then
                                           resume_eveng_interface E lab_path device_id
                                             interface_id dry_run w2
                                         else
                                           flap_eveng_interface E lab_path device_id
                                             interface_id count delay dry_run w2) of
                                     (Inl e, w') \<Rightarrow> (Inl e, w')
                                   | (Inr r, w') \<Rightarrow>
                                       (case tally i line counts r w' of
                                          (c, w'') \<Rightarrow> (Inr c, w'')))))))
         else
           (Inr (fst counts, snd counts + 1),
            print (''Line '' @ str_int i
               @ '': Invalid format - expected 2 or 4 comma-separated values, got ''
               @ str_int (int (length parts)) @ '' (for '' @ line @ '')'') w))"

text \<open>
  The \<open>try\<close> with its \<open>except Exception\<close>: the line counts as a failure. Every raise of
  the body comes before the body changes a counter.
\<close>

definition process_line ::
  "env \<Rightarrow> string \<Rightarrow> string \<Rightarrow> bool \<Rightarrow> int \<Rightarrow> real \<Rightarrow> int \<Rightarrow> string \<Rightarrow> int \<times> int \<Rightarrow> world
     \<Rightarrow> (exn + int \<times> int) \<times> world" where
  "process_line E operation lab_path dry_run count delay i line counts w =
     (case process_line_try E operation lab_path dry_run count delay i line counts w of
        (Inl (PyException e), w') \<Rightarrow>
          (Inr (fst counts, snd counts + 1),
           print (''Line '' @ str_int i @ '': Error processing line: '' @ e @ '' (for '' @ line
              @ '')'') w')
      | (Inl (SystemExit n), w') \<Rightarrow> (Inl (SystemExit n), w')
      | (Inr c, w') \<Rightarrow> (Inr c, w'))"

text \<open>The loop \<open>for i, line in enumerate(f, 1)\<close>, over the lines still to read.\<close>

fun process_lines ::
  "env \<Rightarrow> string \<Rightarrow> string \<Rightarrow> bool \<Rightarrow> int \<Rightarrow> real \<Rightarrow> int \<Rightarrow> string list \<Rightarrow> int \<times> int \<Rightarrow> world
     \<Rightarrow> (exn + int \<times> int) \<times> world" where
  "process_lines E operation lab_path dry_run count delay i [] counts w = (Inr counts, w)"
| "process_lines E operation lab_path dry_run count delay i (raw # rest) counts w =
     (let line = strip raw
      in if line = [] \<or> startswith line ''#'' then
           process_lines E operation lab_path dry_run count delay (i + 1) rest counts w
         else
           (case process_line E operation lab_path dry_run count delay i line counts w of
              (Inl e, w') \<Rightarrow> (Inl e, w')
            | (Inr counts', w') \<Rightarrow>
                process_lines E operation lab_path dry_run count delay (i + 1) rest counts' w'))"

definition process_batch_file ::
  "env \<Rightarrow> string \<Rightarrow> string \<Rightarrow> string \<Rightarrow> bool \<Rightarrow> int \<Rightarrow> real \<Rightarrow> world
     \<Rightarrow> (exn + int \<times> int) \<times> world" where
  "process_batch_file E filename operation lab_path dry_run count delay w =
     (if \<not> path_exists E filename then
        (Inr (0, 0), logger ERROR (''Batch file not found: '' @ filename) w)
      else if operation \<notin> set [''suspend'', ''resume'', ''flap''] then
        (Inr (0, 0), logger ERROR (''Invalid operation: '' @ operation @ ''. Must be ''
           @ [CHR 0x27] @ ''suspend'' @ [CHR 0x27] @ '', '' @ [CHR 0x27] @ ''resume''
           @ [CHR 0x27] @ '', or '' @ [CHR 0x27] @ ''flap'' @ [CHR 0x27]) w)
      else
        (let host = or_default (getenv E ''EVE_HOST'') ''localhost'';
             username = or_default (getenv E ''EVE_USERNAME'') ''admin'';
             password = or_default (getenv E ''EVE_PASSWORD'') ''eve''
         in case connect_to_eveng E host username password w of
              (Inl e, w1) \<Rightarrow> (Inl e, w1)
            | (Inr _, w1) \<Rightarrow>
                (case open_lines E filename of
                   Inl e \<Rightarrow> (Inl (PyException e), w1)
                 | Inr lines \<Rightarrow>
                     process_lines E operation lab_path dry_run count delay 1 lines (0, 0) w1)))"

section \<open>The batch command of \<open>main\<close>\<close>

record batch_args =
  arg_file :: string
  arg_operation :: string
  arg_lab :: string
  arg_dry_run :: bool
  arg_count :: int
  arg_delay :: real

text \<open>
  The branch \<open>args.command == 'batch'\<close> of \<open>main\<close>. Its value is what \<open>main\<close>
  returns: \<open>Some 1\<close> for \<open>return 1\<close>, \<open>None\<close> when it falls off its end.
\<close>

definition main_batch :: "env \<Rightarrow> batch_args \<Rightarrow> world \<Rightarrow> (exn + int option) \<times> world" where
  "main_batch E args w =
     (let lab_path = (if arg_lab args \<noteq> [] \<and> \<not> startswith (arg_lab args) ''/opt/unetlab/labs''
                      then ''/opt/unetlab/labs/'' @ arg_lab args
                      else arg_lab args)
      in case process_batch_file E (arg_file args) (arg_operation args) lab_path
                (arg_dry_run args) (arg_count args) (arg_delay args) w of
           (Inl e, w1) \<Rightarrow> (Inl e, w1)
         | (Inr (success_count, failure_count), w1) \<Rightarrow>
             (let w2 = print (CHR 0x0A # ''Batch processing complete:'') w1;
                  w3 = print (''  Successful operations: '' @ str_int success_count) w2;
                  w4 = print (''  Failed operations: '' @ str_int failure_count) w3
              in if failure_count > 0 then (Inr (Some 1), w4) else (Inr None, w4)))"

text \<open>
  The script's last lines, \<open>if __name__ == "__main__": main()\<close>, for the batch command:
  the exit status of the process. The value \<open>main\<close> returns is not used.
\<close>

definition run_script_batch :: "env \<Rightarrow> batch_args \<Rightarrow> world \<Rightarrow> int \<times> world" where
  "run_script_batch E args w =
     (case main_batch E args w of
        (Inl (SystemExit n), w') \<Rightarrow> (n, w')
      | (Inl (PyException e), w') \<Rightarrow> (1, w')
      | (Inr _, w') \<Rightarrow> (0, w'))"

section \<open>Reading a trace\<close>






fun is_run :: "event \<Rightarrow> bool" where
  "is_run (Run cmd) = True"
| "is_run _ = False"

definition dry_run_marker :: string where
  "dry_run_marker = ''DRY RUN''"





text \<open>The three tests of \<open>find_interface\<close> on one interface, together.\<close>

definition matches :: "string \<Rightarrow> string \<Rightarrow> string \<times> if_data \<Rightarrow> bool" where
  "matches lastp interface_name x =
     (fst x = lastp
      \<or> (is_dict (snd x) \<and> lower (get_name (snd x)) = lower interface_name)
      \<or> (is_dict (snd x) \<and> contains (lower (get_name (snd x))) (lower interface_name)))"

section \<open>Concrete environments\<close>

text \<open>
  A lab with two nodes; node 1 has the ethernet interfaces \<open>0\<close> (Ethernet0/1) and \<open>1\<close>
  (Ethernet0/2). The batch file \<open>links.txt\<close> exists, nothing else does.
\<close>

definition lab_nodes :: nodes_response where
  "lab_nodes = NodesResponse (Some ''success'') (Some [(''1'', Some ''R1''), (''2'', Some ''R2'')]) []"

definition lab_interfaces :: ifs_response where
  "lab_interfaces =
     IfsResponse (Some ''success'')
       (Some [(''ethernet'', [(''0'', IfDict (Some ''Ethernet0/1'')),
                              (''1'', IfDict (Some ''Ethernet0/2''))])]) []"

text \<open>Every command exits with status 0 except the one launched after \<open>n\<close> others, which exits with status 1.\<close>

definition env_fail_at :: "nat \<Rightarrow> string list \<Rightarrow> env" where
  "env_fail_at n lines =
     \<lparr> subprocess_run = (\<lambda>w cmd. if length (filter is_run w) = n
                                 then CalledProcessError ''returned non-zero exit status 1''
                                 else Completed),
       str_float = (\<lambda>d. ''1.0''),
       path_exists = (\<lambda>f. f = ''links.txt''),
       open_lines = (\<lambda>f. Inr lines),
       getenv = (\<lambda>v. None),
       login = (\<lambda>h u p. None),
       list_nodes = (\<lambda>p. lab_nodes),
       get_node_interfaces = (\<lambda>p d. lab_interfaces) \<rparr>"

text \<open>Every command exits with status 0.\<close>

definition env_ok :: "string list \<Rightarrow> env" where
  "env_ok lines = (env_fail_at 0 lines) \<lparr> subprocess_run := (\<lambda>w cmd. Completed) \<rparr>"

text \<open>A host without \<open>sudo\<close>: launching any command raises \<open>FileNotFoundError\<close>.\<close>

definition env_no_sudo :: env where
  "env_no_sudo =
     (env_fail_at 0 []) \<lparr> subprocess_run :=
        (\<lambda>w cmd. Raised ''[Errno 2] No such file or directory: sudo'') \<rparr>"

section \<open>Dry-run mode\<close>

text \<open>
  What holds of the endpoint executors in dry-run mode: the result is a success, its
  message has the dry-run marker, and no command is launched.
\<close>

lemma suspend_eveng_interface_dry_run:
  "suspend_eveng_interface E lab d f True w = (Inr (ok, msg), w')
   \<Longrightarrow> ok \<and> contains msg dry_run_marker \<and> filter is_run w' = filter is_run w"
  by (auto simp add: suspend_eveng_interface_def Let_def logger_def dry_run_marker_def)

lemma resume_eveng_interface_dry_run:
  "resume_eveng_interface E lab d f True w = (Inr (ok, msg), w')
   \<Longrightarrow> ok \<and> contains msg dry_run_marker \<and> filter is_run w' = filter is_run w"
  by (auto simp add: resume_eveng_interface_def Let_def logger_def dry_run_marker_def)

text \<open>
  C1 (the code departs from it). In dry-run mode every transition, endpoint-level or
  link-level, launches no command and returns success with a message that has the
  dry-run marker. The link-level coordinators do return success, but with the message of
  a real suspension or resumption: at devices 1 and 2, interface 0, the message of
  \<open>suspend_eveng_link\<close> and of \<open>resume_eveng_link\<close> has no marker in it.
\<close>

theorem link_dry_run_message_without_marker:
  "fst (suspend_eveng_link E ''lab'' ''1'' ''0'' ''2'' ''0'' True w) =
     Inr (True, ''Successfully suspended link between device 1 interface 0 and device 2 interface 0'')
   \<and> \<not> contains ''Successfully suspended link between device 1 interface 0 and device 2 interface 0''
          dry_run_marker
   \<and> fst (resume_eveng_link E ''lab'' ''1'' ''0'' ''2'' ''0'' True w) =
     Inr (True, ''Successfully resumed link between device 1 interface 0 and device 2 interface 0'')
   \<and> \<not> contains ''Successfully resumed link between device 1 interface 0 and device 2 interface 0''
          dry_run_marker"
  by (simp add: suspend_eveng_link_def resume_eveng_link_def suspend_eveng_interface_def
        resume_eveng_interface_def Let_def dry_run_marker_def)

section \<open>The combination rule of a link\<close>

text \<open>
  C2. When both endpoint executors return a result, \<open>(s1, m1)\<close> for endpoint 1 and
  \<open>(s2, m2)\<close> for endpoint 2, the link-level result succeeds exactly when both do; when
  endpoint 1 failed its message is the first-side text followed by \<open>m1\<close>, with nothing
  of \<open>m2\<close>; when endpoint 1 succeeded and endpoint 2 failed it is the second-side text
  followed by \<open>m2\<close>. For \<open>suspend_eveng_link\<close> and for \<open>resume_eveng_link\<close>.
\<close>

theorem link_result_combination:
  "(suspend_eveng_interface E lab d1 i1 dry
        (logger INFO (''Suspending EVE-NG link: device '' @ d1 @ '' interface '' @ i1
           @ '' <-> device '' @ d2 @ '' interface '' @ i2) w) = (Inr (s1, m1), w1)
      \<and> suspend_eveng_interface E lab d2 i2 dry w1 = (Inr (s2, m2), w2)
    \<longrightarrow> (\<exists>msg. suspend_eveng_link E lab d1 i1 d2 i2 dry w = (Inr (s1 \<and> s2, msg), w2)
           \<and> (\<not> s1 \<longrightarrow> msg = ''Failed to suspend first side of link: '' @ m1)
           \<and> (s1 \<and> \<not> s2 \<longrightarrow> msg = ''Failed to suspend second side of link: '' @ m2)))
   \<and> (resume_eveng_interface E lab d1 i1 dry
        (logger INFO (''Resuming EVE-NG link: device '' @ d1 @ '' interface '' @ i1
           @ '' <-> device '' @ d2 @ '' interface '' @ i2) w) = (Inr (s1, m1), w1)
      \<and> resume_eveng_interface E lab d2 i2 dry w1 = (Inr (s2, m2), w2)
    \<longrightarrow> (\<exists>msg. resume_eveng_link E lab d1 i1 d2 i2 dry w = (Inr (s1 \<and> s2, msg), w2)
           \<and> (\<not> s1 \<longrightarrow> msg = ''Failed to resume first side of link: '' @ m1)
           \<and> (s1 \<and> \<not> s2 \<longrightarrow> msg = ''Failed to resume second side of link: '' @ m2)))"
  by (simp add: suspend_eveng_link_def resume_eveng_link_def Let_def del: append.simps)

text \<open>
  At a lab where the second command launched fails, the suspension of a link reports its
  second side; where the first fails, the resumption reports its first side.
\<close>

theorem link_result_combination_witness:
  "fst (suspend_eveng_interface (env_fail_at 1 []) ''lab'' ''1'' ''0'' False
          (logger INFO ''Suspending EVE-NG link: device 1 interface 0 <-> device 2 interface 0'' []))
     = Inr (True, ''Successfully suspended device 1 interface 0'')
   \<and> fst (suspend_eveng_interface (env_fail_at 1 []) ''lab'' ''2'' ''0'' False
          (snd (suspend_eveng_interface (env_fail_at 1 []) ''lab'' ''1'' ''0'' False
             (logger INFO ''Suspending EVE-NG link: device 1 interface 0 <-> device 2 interface 0'' []))))
     = Inr (False, ''Failed to suspend EVE-NG interface: returned non-zero exit status 1'')
   \<and> fst (suspend_eveng_link (env_fail_at 1 []) ''lab'' ''1'' ''0'' ''2'' ''0'' False [])
     = Inr (False, ''Failed to suspend second side of link: Failed to suspend EVE-NG interface: returned non-zero exit status 1'')
   \<and> fst (resume_eveng_interface (env_fail_at 0 []) ''lab'' ''1'' ''0'' False
          (logger INFO ''Resuming EVE-NG link: device 1 interface 0 <-> device 2 interface 0'' []))
     = Inr (False, ''Failed to resume EVE-NG interface: returned non-zero exit status 1'')
   \<and> fst (resume_eveng_interface (env_fail_at 0 []) ''lab'' ''2'' ''0'' False
          (snd (resume_eveng_interface (env_fail_at 0 []) ''lab'' ''1'' ''0'' False
             (logger INFO ''Resuming EVE-NG link: device 1 interface 0 <-> device 2 interface 0'' []))))
     = Inr (True, ''Successfully resumed device 2 interface 0'')
   \<and> fst (resume_eveng_link (env_fail_at 0 []) ''lab'' ''1'' ''0'' ''2'' ''0'' False [])
     = Inr (False, ''Failed to resume first side of link: Failed to resume EVE-NG interface: returned non-zero exit status 1'')"
proof -
  let ?E = "env_fail_at 1 []" and ?F = "env_fail_at 0 []"
  let ?w0 = "logger INFO ''Suspending EVE-NG link: device 1 interface 0 <-> device 2 interface 0'' []"
  let ?v0 = "logger INFO ''Resuming EVE-NG link: device 1 interface 0 <-> device 2 interface 0'' []"
  let ?w1 = "snd (suspend_eveng_interface ?E ''lab'' ''1'' ''0'' False ?w0)"
  let ?v1 = "snd (resume_eveng_interface ?F ''lab'' ''1'' ''0'' False ?v0)"
  have a1: "fst (suspend_eveng_interface ?E ''lab'' ''1'' ''0'' False ?w0)
              = Inr (True, ''Successfully suspended device 1 interface 0'')"
    by code_simp
  have a2: "fst (suspend_eveng_interface ?E ''lab'' ''2'' ''0'' False ?w1)
              = Inr (False, ''Failed to suspend EVE-NG interface: returned non-zero exit status 1'')"
    by code_simp
  have b1: "fst (resume_eveng_interface ?F ''lab'' ''1'' ''0'' False ?v0)
              = Inr (False, ''Failed to resume EVE-NG interface: returned non-zero exit status 1'')"
    by code_simp
  have b2: "fst (resume_eveng_interface ?F ''lab'' ''2'' ''0'' False ?v1)
              = Inr (True, ''Successfully resumed device 2 interface 0'')"
    by code_simp
  have h1: "suspend_eveng_interface ?E ''lab'' ''1'' ''0'' False ?w0
              = (Inr (True, ''Successfully suspended device 1 interface 0''), ?w1)"
    using a1 by (simp add: prod_eq_iff)
  have h2: "suspend_eveng_interface ?E ''lab'' ''2'' ''0'' False ?w1
              = (Inr (False, ''Failed to suspend EVE-NG interface: returned non-zero exit status 1''),
                 snd (suspend_eveng_interface ?E ''lab'' ''2'' ''0'' False ?w1))"
    using a2 by (simp add: prod_eq_iff)
  have k1: "resume_eveng_interface ?F ''lab'' ''1'' ''0'' False ?v0
              = (Inr (False, ''Failed to resume EVE-NG interface: returned non-zero exit status 1''), ?v1)"
    using b1 by (simp add: prod_eq_iff)
  have k2: "resume_eveng_interface ?F ''lab'' ''2'' ''0'' False ?v1
              = (Inr (True, ''Successfully resumed device 2 interface 0''),
                 snd (resume_eveng_interface ?F ''lab'' ''2'' ''0'' False ?v1))"
    using b2 by (simp add: prod_eq_iff)
  have s: "fst (suspend_eveng_link ?E ''lab'' ''1'' ''0'' ''2'' ''0'' False [])
     = Inr (False, ''Failed to suspend second side of link: Failed to suspend EVE-NG interface: returned non-zero exit status 1'')"
    using link_result_combination [where E = ?E and lab = "''lab''" and ?d1.0 = "''1''"
        and ?i1.0 = "''0''" and ?d2.0 = "''2''" and ?i2.0 = "''0''" and dry = False and w = "[]"
        and ?s1.0 = True and ?s2.0 = False and ?w1.0 = ?w1
        and ?m1.0 = "''Successfully suspended device 1 interface 0''"
        and ?m2.0 = "''Failed to suspend EVE-NG interface: returned non-zero exit status 1''"
        and ?w2.0 = "snd (suspend_eveng_interface ?E ''lab'' ''2'' ''0'' False ?w1)", THEN conjunct1] h1 h2
    by auto
  have r: "fst (resume_eveng_link ?F ''lab'' ''1'' ''0'' ''2'' ''0'' False [])
     = Inr (False, ''Failed to resume first side of link: Failed to resume EVE-NG interface: returned non-zero exit status 1'')"
    using link_result_combination [where E = ?F and lab = "''lab''" and ?d1.0 = "''1''"
        and ?i1.0 = "''0''" and ?d2.0 = "''2''" and ?i2.0 = "''0''" and dry = False and w = "[]"
        and ?s1.0 = False and ?s2.0 = True and ?w1.0 = ?v1
        and ?m1.0 = "''Failed to resume EVE-NG interface: returned non-zero exit status 1''"
        and ?m2.0 = "''Successfully resumed device 2 interface 0''"
        and ?w2.0 = "snd (resume_eveng_interface ?F ''lab'' ''2'' ''0'' False ?v1)", THEN conjunct2] k1 k2
    by auto
  from a1 a2 b1 b2 s r show ?thesis by blast
qed

section \<open>The two calls of a link\<close>










section \<open>What the executor catches\<close>

text \<open>
  C6 (amended). In apply mode a non-zero exit status of the command
  (\<open>CalledProcessError\<close>) is caught and becomes a failure result whose message has the
  error's text; an exception of another kind raised by the launch is not caught and
  leaves the executor. For \<open>suspend_eveng_interface\<close> and \<open>resume_eveng_interface\<close>.
\<close>

theorem executor_catches_nonzero_exit_only:
  "(subprocess_run E
        (logger INFO (''Suspending EVE-NG interface: device '' @ d @ '', interface '' @ f) w)
        [''sudo'', ''/opt/unetlab/wrappers/unl_wrapper'', ''-a'', ''suspendlink'', ''-T'', ''0'',
         ''-I'', f, ''-D'', d, ''-F'', lab] = CalledProcessError e
     \<longrightarrow> fst (suspend_eveng_interface E lab d f False w)
           = Inr (False, ''Failed to suspend EVE-NG interface: '' @ e))
   \<and> (subprocess_run E
        (logger INFO (''Suspending EVE-NG interface: device '' @ d @ '', interface '' @ f) w)
        [''sudo'', ''/opt/unetlab/wrappers/unl_wrapper'', ''-a'', ''suspendlink'', ''-T'', ''0'',
         ''-I'', f, ''-D'', d, ''-F'', lab] = Raised e
     \<longrightarrow> fst (suspend_eveng_interface E lab d f False w) = Inl (PyException e))
   \<and> (subprocess_run E
        (logger INFO (''Resuming EVE-NG interface: device '' @ d @ '', interface '' @ f) w)
        [''sudo'', ''/opt/unetlab/wrappers/unl_wrapper'', ''-a'', ''resumelink'', ''-T'', ''0'',
         ''-I'', f, ''-D'', d, ''-F'', lab] = CalledProcessError e
     \<longrightarrow> fst (resume_eveng_interface E lab d f False w)
           = Inr (False, ''Failed to resume EVE-NG interface: '' @ e))
   \<and> (subprocess_run E
        (logger INFO (''Resuming EVE-NG interface: device '' @ d @ '', interface '' @ f) w)
        [''sudo'', ''/opt/unetlab/wrappers/unl_wrapper'', ''-a'', ''resumelink'', ''-T'', ''0'',
         ''-I'', f, ''-D'', d, ''-F'', lab] = Raised e
     \<longrightarrow> fst (resume_eveng_interface E lab d f False w) = Inl (PyException e))"
  by (simp add: suspend_eveng_interface_def resume_eveng_interface_def Let_def)

text \<open>Both cases, at a command that exits with status 1 and on a host without \<open>sudo\<close>.\<close>

theorem executor_catches_nonzero_exit_only_witness:
  "subprocess_run (env_fail_at 0 [])
        (logger INFO ''Suspending EVE-NG interface: device 1, interface 0'' [])
        [''sudo'', ''/opt/unetlab/wrappers/unl_wrapper'', ''-a'', ''suspendlink'', ''-T'', ''0'',
         ''-I'', ''0'', ''-D'', ''1'', ''-F'', ''lab'']
     = CalledProcessError ''returned non-zero exit status 1''
   \<and> fst (suspend_eveng_interface (env_fail_at 0 []) ''lab'' ''1'' ''0'' False [])
     = Inr (False, ''Failed to suspend EVE-NG interface: returned non-zero exit status 1'')
   \<and> subprocess_run env_no_sudo
        (logger INFO ''Suspending EVE-NG interface: device 1, interface 0'' [])
        [''sudo'', ''/opt/unetlab/wrappers/unl_wrapper'', ''-a'', ''suspendlink'', ''-T'', ''0'',
         ''-I'', ''0'', ''-D'', ''1'', ''-F'', ''lab'']
     = Raised ''[Errno 2] No such file or directory: sudo''
   \<and> fst (suspend_eveng_interface env_no_sudo ''lab'' ''1'' ''0'' False [])
     = Inl (PyException ''[Errno 2] No such file or directory: sudo'')
   \<and> subprocess_run (env_fail_at 0 [])
        (logger INFO ''Resuming EVE-NG interface: device 1, interface 0'' [])
        [''sudo'', ''/opt/unetlab/wrappers/unl_wrapper'', ''-a'', ''resumelink'', ''-T'', ''0'',
         ''-I'', ''0'', ''-D'', ''1'', ''-F'', ''lab'']
     = CalledProcessError ''returned non-zero exit status 1''
   \<and> fst (resume_eveng_interface (env_fail_at 0 []) ''lab'' ''1'' ''0'' False [])
     = Inr (False, ''Failed to resume EVE-NG interface: returned non-zero exit status 1'')
   \<and> subprocess_run env_no_sudo
        (logger INFO ''Resuming EVE-NG interface: device 1, interface 0'' [])
        [''sudo'', ''/opt/unetlab/wrappers/unl_wrapper'', ''-a'', ''resumelink'', ''-T'', ''0'',
         ''-I'', ''0'', ''-D'', ''1'', ''-F'', ''lab'']
     = Raised ''[Errno 2] No such file or directory: sudo''
   \<and> fst (resume_eveng_interface env_no_sudo ''lab'' ''1'' ''0'' False [])
     = Inl (PyException ''[Errno 2] No such file or directory: sudo'')"
proof -
  let ?c = "''returned non-zero exit status 1''"
  let ?x = "''[Errno 2] No such file or directory: sudo''"
  have h1: "subprocess_run (env_fail_at 0 [])
        (logger INFO ''Suspending EVE-NG interface: device 1, interface 0'' [])
        [''sudo'', ''/opt/unetlab/wrappers/unl_wrapper'', ''-a'', ''suspendlink'', ''-T'', ''0'',
         ''-I'', ''0'', ''-D'', ''1'', ''-F'', ''lab''] = CalledProcessError ?c"
    by (simp add: env_fail_at_def logger_def)
  have h2: "subprocess_run env_no_sudo
        (logger INFO ''Suspending EVE-NG interface: device 1, interface 0'' [])
        [''sudo'', ''/opt/unetlab/wrappers/unl_wrapper'', ''-a'', ''suspendlink'', ''-T'', ''0'',
         ''-I'', ''0'', ''-D'', ''1'', ''-F'', ''lab''] = Raised ?x"
    by (simp add: env_no_sudo_def)
  have h3: "subprocess_run (env_fail_at 0 [])
        (logger INFO ''Resuming EVE-NG interface: device 1, interface 0'' [])
        [''sudo'', ''/opt/unetlab/wrappers/unl_wrapper'', ''-a'', ''resumelink'', ''-T'', ''0'',
         ''-I'', ''0'', ''-D'', ''1'', ''-F'', ''lab''] = CalledProcessError ?c"
    by (simp add: env_fail_at_def logger_def)
  have h4: "subprocess_run env_no_sudo
        (logger INFO ''Resuming EVE-NG interface: device 1, interface 0'' [])
        [''sudo'', ''/opt/unetlab/wrappers/unl_wrapper'', ''-a'', ''resumelink'', ''-T'', ''0'',
         ''-I'', ''0'', ''-D'', ''1'', ''-F'', ''lab''] = Raised ?x"
    by (simp add: env_no_sudo_def)
  note t1 = executor_catches_nonzero_exit_only [where E = "env_fail_at 0 []" and lab = "''lab''"
      and d = "''1''" and f = "''0''" and w = "[]" and e = ?c]
  note t2 = executor_catches_nonzero_exit_only [where E = env_no_sudo and lab = "''lab''"
      and d = "''1''" and f = "''0''" and w = "[]" and e = ?x]
  show ?thesis
    using t1 t2 h1 h2 h3 h4 by simp
qed

text \<open>
  C6 as stated fails on a host without \<open>sudo\<close>: the exception leaves both executors.
\<close>

theorem executor_propagates_file_not_found:
  "fst (suspend_eveng_interface env_no_sudo ''lab'' ''1'' ''0'' False [])
     = Inl (PyException ''[Errno 2] No such file or directory: sudo'')
   \<and> fst (resume_eveng_interface env_no_sudo ''lab'' ''1'' ''0'' False [])
     = Inl (PyException ''[Errno 2] No such file or directory: sudo'')"
  by code_simp

section \<open>The steps of a flap sequence\<close>







































section \<open>A failing step ends the sequence\<close>






section \<open>Which interface a name resolves to\<close>

text \<open>
  A name with a slash has at least two parts, so \<open>parts[1]\<close> is in range; the loop of
  \<open>find_interface\<close> finds the first interface that passes one of its tests.
\<close>

lemma split_on_not_Nil: "split_on c s \<noteq> []"
  by (induction s) (auto split: list.splits)

lemma split_on_two_parts: "c \<in> set s \<Longrightarrow> 2 \<le> length (split_on c s)"
proof (induction s)
  case Nil
  then show ?case by simp
next
  case (Cons x xs)
  then show ?case
    using split_on_not_Nil [of c xs]
    by (cases "split_on c xs") (auto split: list.splits)
qed

lemma parts_of_lowered_name:
  "CHR ''/'' \<in> set interface_name \<Longrightarrow> 2 \<le> length (split_on CHR ''/'' (lower interface_name))"
proof -
  assume "CHR ''/'' \<in> set interface_name"
  then have "lower_char CHR ''/'' \<in> set (lower interface_name)"
    by (simp add: lower_def)
  moreover have "lower_char CHR ''/'' = CHR ''/''"
    by (simp add: lower_char_def)
  ultimately show ?thesis
    by (simp add: split_on_two_parts)
qed

lemma find_interface_find:
  "find_interface lastp interface_name bucket
     = map_option fst (find (matches lastp interface_name) bucket)"
  by (induction bucket) (auto simp add: matches_def)

lemma find_first_match:
  "\<forall>x\<in>set pre. \<not> P x \<Longrightarrow> P y \<Longrightarrow> find P (pre @ y # post) = Some y"
  by (induction pre) auto

text \<open>
  C7 (amended). Within the bucket of the resolved type the interfaces are examined in
  the provider's order, and the one returned is the first that passes any of the three
  tests (local ID equal to the last segment of the number, display names equal without
  regard to case, requested name inside the display name); all three tests are applied
  to an interface before the next one is looked at, not tier by tier over the bucket. In
  particular an interface whose local ID equals the last segment is returned whenever no
  interface before it passes one of the tests.
\<close>

theorem first_matching_interface_is_returned:
  assumes "get_node_interfaces E (api_lab_path lab_path) device_id
             = IfsResponse (Some ''success'') (Some data) shown"
      and "map_of data (eve_type_of (fst (parse_interface_name interface_name))) = Some bucket"
  shows "fst (get_interface_id_by_name E lab_path device_id interface_name w)
           = map_option fst
               (find (matches (last_part (snd (parse_interface_name interface_name)))
                        interface_name) bucket)
       \<and> (bucket = pre @ (if_id, d) # post
            \<and> if_id = last_part (snd (parse_interface_name interface_name))
            \<and> (\<forall>x\<in>set pre.
                  \<not> matches (last_part (snd (parse_interface_name interface_name)))
                      interface_name x)
          \<longrightarrow> fst (get_interface_id_by_name E lab_path device_id interface_name w) = Some if_id)"
proof -
  let ?lastp = "last_part (snd (parse_interface_name interface_name))"
  have r: "fst (get_interface_id_by_name E lab_path device_id interface_name w)
             = find_interface ?lastp interface_name bucket"
    using assms
    by (cases "find_interface ?lastp interface_name bucket")
       (simp_all add: get_interface_id_by_name_def Let_def split_beta)
  have m: "matches ?lastp interface_name (?lastp, d)"
    by (simp add: matches_def)
  show ?thesis
    using r m by (auto simp add: find_interface_find find_first_match)
qed

text \<open>
  The name \<open>e0/1\<close> on node 1: interface \<open>0\<close> (Ethernet0/1) passes no test and
  interface \<open>1\<close> is returned for its ID.
\<close>

theorem first_matching_interface_is_returned_witness:
  "get_node_interfaces (env_ok []) (api_lab_path ''/opt/unetlab/labs/demo.unl'') ''1''
     = IfsResponse (Some ''success'')
         (Some [(''ethernet'', [(''0'', IfDict (Some ''Ethernet0/1'')),
                                (''1'', IfDict (Some ''Ethernet0/2''))])]) []
   \<and> eve_type_of (fst (parse_interface_name ''e0/1'')) = ''ethernet''
   \<and> last_part (snd (parse_interface_name ''e0/1'')) = ''1''
   \<and> \<not> matches ''1'' ''e0/1'' (''0'', IfDict (Some ''Ethernet0/1''))
   \<and> fst (get_interface_id_by_name (env_ok []) ''/opt/unetlab/labs/demo.unl'' ''1'' ''e0/1'' [])
       = Some ''1''"
proof -
  let ?data = "[(''ethernet'', [(''0'', IfDict (Some ''Ethernet0/1'')),
                                (''1'', IfDict (Some ''Ethernet0/2''))])]"
  let ?bucket = "[(''0'', IfDict (Some ''Ethernet0/1'')), (''1'', IfDict (Some ''Ethernet0/2''))]"
  have h1: "get_node_interfaces (env_ok []) (api_lab_path ''/opt/unetlab/labs/demo.unl'') ''1''
              = IfsResponse (Some ''success'') (Some ?data) []"
    by (simp add: env_ok_def env_fail_at_def lab_interfaces_def)
  have t: "eve_type_of (fst (parse_interface_name ''e0/1'')) = ''ethernet''"
    by code_simp
  have h2: "map_of ?data (eve_type_of (fst (parse_interface_name ''e0/1''))) = Some ?bucket"
    by (simp add: t)
  have l: "last_part (snd (parse_interface_name ''e0/1'')) = ''1''"
    by code_simp
  have n: "\<not> matches ''1'' ''e0/1'' (''0'', IfDict (Some ''Ethernet0/1''))"
    by code_simp
  let ?id = "last_part (snd (parse_interface_name ''e0/1''))"
  have b: "?bucket = [(''0'', IfDict (Some ''Ethernet0/1''))] @ (?id, IfDict (Some ''Ethernet0/2'')) # []"
    by (simp add: l)
  have n': "\<forall>x\<in>set [(''0'', IfDict (Some ''Ethernet0/1''))]. \<not> matches ?id ''e0/1'' x"
    using n by (simp add: l)
  have "fst (get_interface_id_by_name (env_ok []) ''/opt/unetlab/labs/demo.unl'' ''1'' ''e0/1'' [])
       = Some ?id"
    using first_matching_interface_is_returned [OF h1 h2,
        where pre = "[(''0'', IfDict (Some ''Ethernet0/1''))]" and if_id = ?id
          and d = "IfDict (Some ''Ethernet0/2'')" and post = "[]" and w = "[]", THEN conjunct2]
      b n'
    by blast
  then have "fst (get_interface_id_by_name (env_ok []) ''/opt/unetlab/labs/demo.unl'' ''1'' ''e0/1'' [])
       = Some ''1''"
    by (simp only: l)
  with h1 t l n show ?thesis by blast
qed

text \<open>
  C7 as stated fails for the name \<open>Ethernet0/1\<close> on node 1: the last segment is
  \<open>1\<close> and interface \<open>1\<close> has that local ID, yet interface \<open>0\<close>, first in the
  bucket, is returned for its display name.
\<close>

theorem id_match_not_preferred:
  "get_node_interfaces (env_ok []) (api_lab_path ''/opt/unetlab/labs/demo.unl'') ''1''
     = IfsResponse (Some ''success'')
         (Some [(''ethernet'', [(''0'', IfDict (Some ''Ethernet0/1'')),
                                (''1'', IfDict (Some ''Ethernet0/2''))])]) []
   \<and> eve_type_of (fst (parse_interface_name ''Ethernet0/1'')) = ''ethernet''
   \<and> last_part (snd (parse_interface_name ''Ethernet0/1'')) = ''1''
   \<and> fst (get_interface_id_by_name (env_ok []) ''/opt/unetlab/labs/demo.unl'' ''1''
            ''Ethernet0/1'' []) = Some ''0''
   \<and> fst (get_interface_id_by_name (env_ok []) ''/opt/unetlab/labs/demo.unl'' ''1''
            ''Ethernet0/1'' []) \<noteq> Some ''1''"
proof -
  have p: "parse_interface_name ''Ethernet0/1'' = (''ethernet'', ''0/1'')"
    by code_simp
  have t: "eve_type_of ''ethernet'' = ''ethernet''"
    by code_simp
  have l: "last_part ''0/1'' = ''1''"
    by code_simp
  have f: "find_interface ''1'' ''Ethernet0/1''
             [(''0'', IfDict (Some ''Ethernet0/1'')), (''1'', IfDict (Some ''Ethernet0/2''))]
           = Some ''0''"
    by code_simp
  show ?thesis
    by (simp add: get_interface_id_by_name_def env_ok_def env_fail_at_def lab_interfaces_def
          p t l f)
qed

section \<open>The lines of a batch\<close>

text \<open>A line that begins with the comment marker still does once stripped; a \<open>print\<close> invokes nothing.\<close>

lemma not_isspace_hash: "\<not> isspace CHR ''#''"
  by (simp add: isspace_def)

lemma strip_keeps_hash: "startswith raw ''#'' \<Longrightarrow> startswith (strip raw) ''#''"
proof -
  assume "startswith raw ''#''"
  then obtain t where raw: "raw = CHR ''#'' # t"
    by (auto simp add: startswith_def prefix_def)
  have "dropWhile isspace (rev t @ [CHR ''#'']) = dropWhile isspace (rev t) @ [CHR ''#'']
        \<or> dropWhile isspace (rev t @ [CHR ''#'']) = [CHR ''#'']"
    by (induction "rev t" arbitrary: t) (auto simp add: dropWhile_append not_isspace_hash)
  then show ?thesis
    using raw by (auto simp add: strip_def startswith_def not_isspace_hash)
qed




section \<open>The exit status of a batch\<close>

text \<open>
  C9 (the code departs from it). After a batch the program returns a nonzero indication
  to its caller when \<open>failure_count > 0\<close>. \<open>main\<close> does return 1 then, as its comment
  says ("Return non-zero exit code if any operations failed"), but the script calls
  \<open>main()\<close> without passing its value to \<open>sys.exit\<close>: with a batch of the single line
  \<open>a,b,c\<close> the failure count is 1, \<open>main\<close> returns 1, and the exit status of the
  process is 0.
\<close>

theorem batch_failure_exit_status_zero:
  "fst (process_batch_file (env_ok [''a,b,c'']) ''links.txt'' ''suspend''
          ''/opt/unetlab/labs/demo.unl'' False 1 1 []) = Inr (0, 1)
   \<and> fst (main_batch (env_ok [''a,b,c''])
          \<lparr>arg_file = ''links.txt'', arg_operation = ''suspend'', arg_lab = ''demo.unl'',
           arg_dry_run = False, arg_count = 1, arg_delay = 1\<rparr> []) = Inr (Some 1)
   \<and> fst (run_script_batch (env_ok [''a,b,c''])
          \<lparr>arg_file = ''links.txt'', arg_operation = ''suspend'', arg_lab = ''demo.unl'',
           arg_dry_run = False, arg_count = 1, arg_delay = 1\<rparr> []) = 0"
  by code_simp

section \<open>A batch that is not run\<close>

lemma process_lines_all_skipped:
  "\<forall>l\<in>set lines. strip l = [] \<or> startswith l ''#''
   \<Longrightarrow> process_lines E operation lab_path dry_run count delay i lines counts w = (Inr counts, w)"
proof (induction lines arbitrary: i)
  case Nil
  then show ?case by simp
next
  case (Cons raw rest)
  then have "strip raw = [] \<or> startswith (strip raw) ''#''"
    using strip_keeps_hash by auto
  with Cons show ?case by (auto simp add: Let_def)
qed

text \<open>
  C10. For a file that does not exist, and for an operation that is none of
  \<open>suspend\<close>, \<open>resume\<close>, \<open>flap\<close>, \<open>process_batch_file\<close> returns \<open>(0, 0)\<close> and does
  nothing but log one error line: no connection, no line read. A batch that is read and
  holds only skipped lines returns the same \<open>(0, 0)\<close>, and \<open>main\<close> returns no error
  value for it (it falls off its end, as for a batch without failures).
\<close>

theorem no_batch_counts_as_empty_batch:
  "(\<not> path_exists E filename
      \<longrightarrow> process_batch_file E filename operation lab_path dry_run count delay w
          = (Inr (0, 0), logger ERROR (''Batch file not found: '' @ filename) w))
   \<and> (operation \<notin> {''suspend'', ''resume'', ''flap''}
      \<longrightarrow> fst (process_batch_file E filename operation lab_path dry_run count delay w) = Inr (0, 0)
        \<and> snd (process_batch_file E filename operation lab_path dry_run count delay w)
            = logger ERROR
                (if path_exists E filename
                 then ''Invalid operation: '' @ operation @ ''. Must be '' @ [CHR 0x27]
                        @ ''suspend'' @ [CHR 0x27] @ '', '' @ [CHR 0x27] @ ''resume''
                        @ [CHR 0x27] @ '', or '' @ [CHR 0x27] @ ''flap'' @ [CHR 0x27]
                 else ''Batch file not found: '' @ filename) w)
   \<and> (path_exists E filename \<and> operation \<in> {''suspend'', ''resume'', ''flap''}
        \<and> login E (or_default (getenv E ''EVE_HOST'') ''localhost'')
             (or_default (getenv E ''EVE_USERNAME'') ''admin'')
             (or_default (getenv E ''EVE_PASSWORD'') ''eve'') = None
        \<and> open_lines E filename = Inr lines
        \<and> (\<forall>l\<in>set lines. strip l = [] \<or> startswith l ''#'')
      \<longrightarrow> fst (process_batch_file E filename operation lab_path dry_run count delay w) = Inr (0, 0))
   \<and> (\<not> path_exists E (arg_file args) \<or> arg_operation args \<notin> {''suspend'', ''resume'', ''flap''}
      \<longrightarrow> fst (main_batch E args w) = Inr None)"
proof (intro conjI impI)
  assume "\<not> path_exists E filename"
  then show "process_batch_file E filename operation lab_path dry_run count delay w
          = (Inr (0, 0), logger ERROR (''Batch file not found: '' @ filename) w)"
    by (simp add: process_batch_file_def)
next
  assume "operation \<notin> {''suspend'', ''resume'', ''flap''}"
  then show "fst (process_batch_file E filename operation lab_path dry_run count delay w)
               = Inr (0, 0)"
    by (simp add: process_batch_file_def)
next
  assume "operation \<notin> {''suspend'', ''resume'', ''flap''}"
  then show "snd (process_batch_file E filename operation lab_path dry_run count delay w)
            = logger ERROR
                (if path_exists E filename
                 then ''Invalid operation: '' @ operation @ ''. Must be '' @ [CHR 0x27]
                        @ ''suspend'' @ [CHR 0x27] @ '', '' @ [CHR 0x27] @ ''resume''
                        @ [CHR 0x27] @ '', or '' @ [CHR 0x27] @ ''flap'' @ [CHR 0x27]
                 else ''Batch file not found: '' @ filename) w"
    by (simp add: process_batch_file_def)
next
  assume a: "path_exists E filename \<and> operation \<in> {''suspend'', ''resume'', ''flap''}
        \<and> login E (or_default (getenv E ''EVE_HOST'') ''localhost'')
             (or_default (getenv E ''EVE_USERNAME'') ''admin'')
             (or_default (getenv E ''EVE_PASSWORD'') ''eve'') = None
        \<and> open_lines E filename = Inr lines
        \<and> (\<forall>l\<in>set lines. strip l = [] \<or> startswith l ''#'')"
  then have "\<forall>l\<in>set lines. strip l = [] \<or> startswith l ''#''"
    by blast
  note sk = process_lines_all_skipped [OF this]
  from a show "fst (process_batch_file E filename operation lab_path dry_run count delay w)
                 = Inr (0, 0)"
    by (simp add: process_batch_file_def connect_to_eveng_def Let_def sk del: append.simps)
next
  assume "\<not> path_exists E (arg_file args)
          \<or> arg_operation args \<notin> {''suspend'', ''resume'', ''flap''}"
  then have "fst (process_batch_file E (arg_file args) (arg_operation args)
                (if arg_lab args \<noteq> [] \<and> \<not> startswith (arg_lab args) ''/opt/unetlab/labs''
                 then ''/opt/unetlab/labs/'' @ arg_lab args else arg_lab args)
                (arg_dry_run args) (arg_count args) (arg_delay args) w) = Inr (0, 0)"
    by (auto simp add: process_batch_file_def)
  then show "fst (main_batch E args w) = Inr None"
    by (simp add: main_batch_def Let_def split_beta split: sum.splits prod.splits del: append.simps)
qed


text \<open>
  A missing file, an operation \<open>delete\<close>, and a file of a comment and an empty line all
  give \<open>(0, 0)\<close>.
\<close>

theorem no_batch_counts_as_empty_batch_witness:
  "\<not> path_exists (env_ok []) ''missing.txt''
   \<and> process_batch_file (env_ok []) ''missing.txt'' ''suspend'' ''lab'' False 1 1 []
       = (Inr (0, 0), [Log ERROR ''Batch file not found: missing.txt''])
   \<and> ''delete'' \<notin> {''suspend'', ''resume'', ''flap''}
   \<and> fst (process_batch_file (env_ok []) ''links.txt'' ''delete'' ''lab'' False 1 1 []) = Inr (0, 0)
   \<and> path_exists (env_ok [''# only a comment'', []]) ''links.txt''
   \<and> open_lines (env_ok [''# only a comment'', []]) ''links.txt''
       = Inr [''# only a comment'', []]
   \<and> fst (process_batch_file (env_ok [''# only a comment'', []]) ''links.txt'' ''suspend''
            ''lab'' False 1 1 []) = Inr (0, 0)
   \<and> fst (main_batch (env_ok [])
            \<lparr>arg_file = ''missing.txt'', arg_operation = ''suspend'', arg_lab = ''demo.unl'',
             arg_dry_run = False, arg_count = 1, arg_delay = 1\<rparr> []) = Inr None"
proof -
  let ?E = "env_ok []" and ?F = "env_ok [''# only a comment'', []]"
  let ?args = "\<lparr>arg_file = ''missing.txt'', arg_operation = ''suspend'', arg_lab = ''demo.unl'',
             arg_dry_run = False, arg_count = 1, arg_delay = 1\<rparr>"
  have h1: "\<not> path_exists ?E ''missing.txt''"
    by (simp add: env_ok_def env_fail_at_def)
  have h2: "''delete'' \<notin> {''suspend'', ''resume'', ''flap''}"
    by simp
  have h3: "path_exists ?F ''links.txt''"
    by (simp add: env_ok_def env_fail_at_def)
  have h4: "''suspend'' \<in> {''suspend'', ''resume'', ''flap''}"
    by simp
  have h5: "login ?F (or_default (getenv ?F ''EVE_HOST'') ''localhost'')
             (or_default (getenv ?F ''EVE_USERNAME'') ''admin'')
             (or_default (getenv ?F ''EVE_PASSWORD'') ''eve'') = None"
    by (simp add: env_ok_def env_fail_at_def)
  have h6: "open_lines ?F ''links.txt'' = Inr [''# only a comment'', []]"
    by (simp add: env_ok_def env_fail_at_def)
  have h7: "\<forall>l\<in>set [''# only a comment'', []]. strip l = [] \<or> startswith l ''#''"
    by (simp add: strip_def startswith_def)
  have h8: "\<not> path_exists ?E (arg_file ?args)
            \<or> arg_operation ?args \<notin> {''suspend'', ''resume'', ''flap''}"
    using h1 by simp
  note t = no_batch_counts_as_empty_batch
  have a: "process_batch_file ?E ''missing.txt'' ''suspend'' ''lab'' False 1 1 []
       = (Inr (0, 0), [Log ERROR ''Batch file not found: missing.txt''])"
    using t [where E = ?E and filename = "''missing.txt''" and operation = "''suspend''"
        and lab_path = "''lab''" and dry_run = False and count = 1 and delay = 1 and w = "[]",
        THEN conjunct1] h1
    by (simp add: logger_def)
  have b: "fst (process_batch_file ?E ''links.txt'' ''delete'' ''lab'' False 1 1 []) = Inr (0, 0)"
    using t [where E = ?E and filename = "''links.txt''" and operation = "''delete''"
        and lab_path = "''lab''" and dry_run = False and count = 1 and delay = 1 and w = "[]",
        THEN conjunct2, THEN conjunct1] h2
    by blast
  have c: "fst (process_batch_file ?F ''links.txt'' ''suspend'' ''lab'' False 1 1 []) = Inr (0, 0)"
    using t [where E = ?F and filename = "''links.txt''" and operation = "''suspend''"
        and lab_path = "''lab''" and dry_run = False and count = 1 and delay = 1 and w = "[]"
        and lines = "[''# only a comment'', []]",
        THEN conjunct2, THEN conjunct2, THEN conjunct1] h3 h4 h5 h6 h7
    by blast
  have d: "fst (main_batch ?E ?args []) = Inr None"
    using t [where E = ?E and args = ?args and w = "[]",
        THEN conjunct2, THEN conjunct2, THEN conjunct2] h8
    by blast
  from h1 a h2 b h3 h6 c d show ?thesis by blast
qed

end
